theory Spec2Isabelle
  imports Complex_Main
begin

section \<open>Booking and payment lifecycle of the driver-booking backend\<close>

text \<open>
  The theory embeds the request handlers of \<^verbatim>\<open>backend/routes/booking.js\<close> and
  \<^verbatim>\<open>backend/routes/payment.js\<close>. The database is a record of tables (lists of
  rows); a handler takes the tables and the request and returns the response together
  with the tables afterwards. A response is \<open>Inl\<close> of an error kind (the handler's
  4xx/5xx answers) or \<open>Inr\<close> of the success payload. A handler is modelled from the
  point where the route's middleware has admitted the caller.

  Calendar dates are day numbers (\<open>int\<close>); money amounts are rationals (the source
  computes with JavaScript numbers; rounding is not modelled). Time stamps such as
  \<^verbatim>\<open>verified_at\<close> and \<^verbatim>\<open>created_at\<close> are left out, and so is the users table:
  a driver row carries the name and phone number joined from it.
\<close>

subsection \<open>Enumerations\<close>

datatype booking_status = Pending | Confirmed | Ongoing | Completed | Cancelled

datatype payment_status = Unpaid | Dp_paid | Paid

datatype payment_type = Dp | Full | Pelunasan

datatype payment_method = Transfer | Cash | E_wallet

datatype status_payment = PayPending | Verified | Rejected

datatype role = RoleUser | RoleDriver | RoleAdmin

text \<open>
  The error kinds name the handlers' failure answers: \<open>StartInPast\<close> and
  \<open>EndBeforeStart\<close> are the two date checks of booking creation, \<open>DriverUnavailable\<close>
  is \<^verbatim>\<open>'Driver tidak tersedia'\<close>, \<open>ScheduleConflict\<close> is
  \<^verbatim>\<open>'Driver sudah dibooking pada tanggal tersebut'\<close>, \<open>InvalidTransition\<close> is
  \<^verbatim>\<open>'Tidak dapat mengubah status dari ... ke ...'\<close>, \<open>NotCancellable\<close> is
  \<^verbatim>\<open>'Booking tidak dapat dibatalkan'\<close>, \<open>InsufficientAmount\<close> is the
  \<^verbatim>\<open>'DP minimal ...'\<close> / \<^verbatim>\<open>'Sisa pembayaran: ...'\<close> answer, \<open>ProofRequired\<close> is
  \<^verbatim>\<open>'Bukti transfer harus diupload untuk metode transfer'\<close>, \<open>AlreadyDecided\<close> is
  \<^verbatim>\<open>'Pembayaran sudah diverifikasi sebelumnya'\<close>, and \<open>ServerError\<close> is the
  answer of a handler's \<^verbatim>\<open>catch\<close> block.
\<close>

datatype error =
    ValidationError
  | StartInPast
  | EndBeforeStart
  | DriverUnavailable
  | ScheduleConflict
  | BookingNotFound
  | Forbidden
  | InvalidTransition
  | NotCancellable
  | InsufficientAmount
  | ProofRequired
  | PaymentNotFound
  | AlreadyDecided
  | ServerError

subsection \<open>Tables\<close>

record driver =
  d_id :: nat
  d_user_id :: nat
  status_verifikasi :: string
  is_available :: bool
  d_harga_per_hari :: rat
  d_nama_lengkap :: string
  d_nomor_hp :: string
  merk_mobil :: string

record booking =
  b_id :: nat
  booking_code :: string
  b_user_id :: nat
  b_driver_id :: nat
  jenis_layanan :: string
  tanggal_mulai :: int
  tanggal_selesai :: int
  waktu_mulai :: string
  lokasi_jemput :: string
  lokasi_tujuan :: string
  jumlah_penumpang :: "nat option"
  detail_barang :: "string option"
  catatan_khusus :: "string option"
  total_hari :: int
  harga_per_hari :: rat
  total_harga :: rat
  status_booking :: booking_status
  payment_status :: payment_status

record payment =
  p_id :: nat
  p_booking_id :: nat
  jumlah :: rat
  payment_type :: payment_type
  payment_method :: payment_method
  bukti_transfer :: "string option"
  status_payment :: status_payment
  verified_by :: "nat option"

record notification =
  n_user_id :: nat
  n_title :: string
  n_message :: string
  n_type :: string

record state =
  drivers :: "driver list"
  bookings :: "booking list"
  payments :: "payment list"
  notifications :: "notification list"
  next_booking_id :: nat
  next_payment_id :: nat

subsection \<open>Requests and success payloads\<close>

record booking_request =
  r_driver_id :: nat
  r_jenis_layanan :: string
  r_tanggal_mulai :: int
  r_tanggal_selesai :: int
  r_waktu_mulai :: string
  r_lokasi_jemput :: string
  r_lokasi_tujuan :: string
  r_jumlah_penumpang :: "nat option"
  r_detail_barang :: "string option"
  r_catatan_khusus :: "string option"

record booking_result =
  bookingId :: nat
  bookingCode :: string
  totalHari :: int
  totalHarga :: rat
  driver_nama :: string
  driver_nomor_hp :: string
  driver_mobil :: string

record payment_request =
  q_booking_id :: nat
  q_jumlah :: rat
  q_payment_type :: payment_type
  q_payment_method :: payment_method
  q_bukti_transfer :: "string option"

record payment_result =
  payment_id :: nat
  res_booking_id :: nat
  res_jumlah :: rat
  res_status :: status_payment

subsection \<open>Creating a booking: \<^verbatim>\<open>POST /\<close> of booking.js\<close>

text \<open>
  The validators of the route: \<^verbatim>\<open>jenis_layanan\<close> is one of three words,
  \<^verbatim>\<open>waktu_mulai\<close> matches \<^verbatim>\<open>^([01]\d|2[0-3]):([0-5]\d)$\<close>, both locations are
  non-empty. The integer and date validators hold by typing.
\<close>

definition is_digit :: "char \<Rightarrow> bool" where
  "is_digit c = (c \<in> set ''0123456789'')"

definition valid_waktu :: "string \<Rightarrow> bool" where
  "valid_waktu w =
     (case w of
        [h1, h2, sep, m1, m2] \<Rightarrow>
          (((h1 = CHR ''0'' \<or> h1 = CHR ''1'') \<and> is_digit h2) \<or>
           (h1 = CHR ''2'' \<and> h2 \<in> set ''0123'')) \<and>
          sep = CHR '':'' \<and>
          m1 \<in> set ''012345'' \<and> is_digit m2
      | _ \<Rightarrow> False)"

definition valid_booking_request :: "booking_request \<Rightarrow> bool" where
  "valid_booking_request req =
     (r_jenis_layanan req \<in> set [''pengantaran'', ''barang'', ''tour''] \<and>
      valid_waktu (r_waktu_mulai req) \<and>
      r_lokasi_jemput req \<noteq> [] \<and>
      r_lokasi_tujuan req \<noteq> [])"

text \<open>
  \<^verbatim>\<open>new Date('YYYY-MM-DD').getTime()\<close>: a calendar date read as midnight UTC, in
  milliseconds.
\<close>

definition msPerDay :: int where
  "msPerDay = 1000 * 3600 * 24"

definition getTime :: "int \<Rightarrow> int" where
  "getTime d = d * msPerDay"

text \<open>\<^verbatim>\<open>Math.ceil(a / b)\<close> on integers \<open>a\<close> and \<open>b > 0\<close>.\<close>

definition ceil_div :: "int \<Rightarrow> int \<Rightarrow> int" where
  "ceil_div a b = - ((- a) div b)"

text \<open>SQL \<^verbatim>\<open>x BETWEEN lo AND hi\<close>.\<close>

definition between :: "int \<Rightarrow> int \<Rightarrow> int \<Rightarrow> bool" where
  "between x lo hi = (lo \<le> x \<and> x \<le> hi)"

text \<open>The \<^verbatim>\<open>WHERE\<close> clause of the conflict query.\<close>

definition conflicting :: "nat \<Rightarrow> int \<Rightarrow> int \<Rightarrow> booking \<Rightarrow> bool" where
  "conflicting did mulai selesai b =
     (b_driver_id b = did \<and>
      status_booking b \<notin> set [Cancelled, Completed] \<and>
      (between (tanggal_mulai b) mulai selesai \<or>
       between (tanggal_selesai b) mulai selesai \<or>
       between mulai (tanggal_mulai b) (tanggal_selesai b) \<or>
       between selesai (tanggal_mulai b) (tanggal_selesai b)))"

text \<open>The driver query: the row must be verified and accepting bookings.\<close>

definition available_drivers :: "state \<Rightarrow> nat \<Rightarrow> driver list" where
  "available_drivers s did =
     filter (\<lambda>d. d_id d = did \<and> status_verifikasi d = ''verified'' \<and> is_available d)
       (drivers s)"

text \<open>JavaScript's \<^verbatim>\<open>x || null\<close> on an optional string and an optional count.\<close>

definition str_or_null :: "string option \<Rightarrow> string option" where
  "str_or_null x = (case x of Some [] \<Rightarrow> None | _ \<Rightarrow> x)"

definition num_or_null :: "nat option \<Rightarrow> nat option" where
  "num_or_null x = (case x of Some 0 \<Rightarrow> None | _ \<Rightarrow> x)"

text \<open>
  Modelled from the spec: the table declaration with the default of the
  \<^verbatim>\<open>payment_status\<close> column is not among the source files; the spec's payment
  status of a booking without verified payments is \<open>unpaid\<close>.
\<close>

definition default_payment_status :: payment_status where
  "default_payment_status = Unpaid"

text \<open>
  The handler. \<open>today\<close> is the time stamp of \<^verbatim>\<open>today.setHours(0, 0, 0, 0)\<close>,
  \<open>code\<close> the result of \<^verbatim>\<open>generateBookingCode()\<close>, \<open>userId\<close> and \<open>userName\<close> the
  authenticated caller. An exception inside the transaction rolls it back, so the tables
  are returned as they were. The insert names no payment status, so the new row takes
  the column default.
\<close>

definition createBooking ::
  "int \<Rightarrow> string \<Rightarrow> state \<Rightarrow> nat \<Rightarrow> string \<Rightarrow> booking_request
     \<Rightarrow> (error + booking_result) \<times> state" where
  "createBooking today code s userId userName req =
     (if \<not> valid_booking_request req then (Inl ValidationError, s)
      else
        let startDate = getTime (r_tanggal_mulai req);
            endDate = getTime (r_tanggal_selesai req)
        in
          if startDate < today then (Inl StartInPast, s)
          else if endDate < startDate then (Inl EndBeforeStart, s)
          else
            (case available_drivers s (r_driver_id req) of
               [] \<Rightarrow> (Inl DriverUnavailable, s)
             | driver # _ \<Rightarrow>
                 if filter (conflicting (r_driver_id req) (r_tanggal_mulai req)
                              (r_tanggal_selesai req)) (bookings s) \<noteq> []
                 then (Inl ScheduleConflict, s)
                 else
                   let timeDiff = endDate - startDate;
                       totalHari = ceil_div timeDiff msPerDay + 1;
                       hargaPerHari = d_harga_per_hari driver;
                       totalHarga = of_int totalHari * hargaPerHari;
                       row = \<lparr>b_id = next_booking_id s,
                              booking_code = code,
                              b_user_id = userId,
                              b_driver_id = r_driver_id req,
                              jenis_layanan = r_jenis_layanan req,
                              tanggal_mulai = r_tanggal_mulai req,
                              tanggal_selesai = r_tanggal_selesai req,
                              waktu_mulai = r_waktu_mulai req,
                              lokasi_jemput = r_lokasi_jemput req,
                              lokasi_tujuan = r_lokasi_tujuan req,
                              jumlah_penumpang = num_or_null (r_jumlah_penumpang req),
                              detail_barang = str_or_null (r_detail_barang req),
                              catatan_khusus = str_or_null (r_catatan_khusus req),
                              total_hari = totalHari,
                              harga_per_hari = hargaPerHari,
                              total_harga = totalHarga,
                              status_booking = Pending,
                              payment_status = default_payment_status\<rparr>;
                       note = \<lparr>n_user_id = d_user_id driver,
                               n_title = ''Booking Baru'',
                               n_message = ''Anda mendapat booking baru dari '' @ userName
                                 @ '' untuk '' @ r_jenis_layanan req,
                               n_type = ''booking''\<rparr>
                   in (Inr \<lparr>bookingId = next_booking_id s,
                            bookingCode = code,
                            totalHari = totalHari,
                            totalHarga = totalHarga,
                            driver_nama = d_nama_lengkap driver,
                            driver_nomor_hp = d_nomor_hp driver,
                            driver_mobil = merk_mobil driver\<rparr>,
                       s\<lparr>bookings := bookings s @ [row],
                         notifications := notifications s @ [note],
                         next_booking_id := Suc (next_booking_id s)\<rparr>)))"

subsection \<open>Changing a booking's status: \<^verbatim>\<open>PATCH /:id/status\<close> of booking.js\<close>

definition validTransitions :: "booking_status \<Rightarrow> booking_status list" where
  "validTransitions current =
     (case current of
        Pending \<Rightarrow> [Confirmed, Cancelled]
      | Confirmed \<Rightarrow> [Ongoing, Cancelled]
      | Ongoing \<Rightarrow> [Completed, Cancelled]
      | Completed \<Rightarrow> []
      | Cancelled \<Rightarrow> [])"

text \<open>The booking joined with its driver row, as the handler's query selects it.\<close>

definition booking_with_driver :: "state \<Rightarrow> nat \<Rightarrow> (booking \<times> driver) list" where
  "booking_with_driver s i =
     [(b, d). b \<leftarrow> bookings s, d \<leftarrow> drivers s, b_driver_id b = d_id d \<and> b_id b = i]"

definition notifMessage :: "booking_status \<Rightarrow> string option \<Rightarrow> string" where
  "notifMessage status reason =
     (case status of
        Confirmed \<Rightarrow> ''Booking Anda telah dikonfirmasi oleh driver''
      | Ongoing \<Rightarrow> ''Driver sudah dalam perjalanan''
      | Completed \<Rightarrow> ''Perjalanan selesai. Silakan beri rating untuk driver''
      | Cancelled \<Rightarrow> ''Booking dibatalkan. '' @ (case reason of None \<Rightarrow> [] | Some r \<Rightarrow> r)
      | Pending \<Rightarrow> [])"

definition set_status_booking :: "nat \<Rightarrow> booking_status \<Rightarrow> booking list \<Rightarrow> booking list" where
  "set_status_booking i status rows =
     map (\<lambda>b. if b_id b = i then b\<lparr>status_booking := status\<rparr> else b) rows"

text \<open>
  The handler; \<open>userId\<close> and \<open>userRole\<close> are the authenticated caller. It does not
  read the result of its validators, so the requested status may be any of the five.
\<close>

definition updateBookingStatus ::
  "state \<Rightarrow> nat \<Rightarrow> role \<Rightarrow> nat \<Rightarrow> booking_status \<Rightarrow> string option
     \<Rightarrow> (error + nat \<times> booking_status) \<times> state" where
  "updateBookingStatus s userId userRole i status reason =
     (case booking_with_driver s i of
        [] \<Rightarrow> (Inl BookingNotFound, s)
      | (booking, d) # _ \<Rightarrow>
          if userRole = RoleDriver \<and> d_user_id d \<noteq> userId then (Inl Forbidden, s)
          else if status \<notin> set (validTransitions (status_booking booking))
          then (Inl InvalidTransition, s)
          else
            (Inr (i, status),
             s\<lparr>bookings := set_status_booking i status (bookings s),
               notifications := notifications s @
                 [\<lparr>n_user_id = b_user_id booking,
                   n_title = ''Update Booking'',
                   n_message = notifMessage status reason,
                   n_type = ''booking''\<rparr>]\<rparr>))"

subsection \<open>Cancelling as the customer: \<^verbatim>\<open>POST /:id/cancel\<close> of booking.js\<close>

text \<open>
  The values bound to a statement's \<^verbatim>\<open>?\<close> placeholders, and the words of the status
  column.
\<close>

datatype sql_value = SqlText string | SqlNum nat

definition status_of_text :: "string \<Rightarrow> booking_status option" where
  "status_of_text w =
     (if w = ''pending'' then Some Pending
      else if w = ''confirmed'' then Some Confirmed
      else if w = ''ongoing'' then Some Ongoing
      else if w = ''completed'' then Some Completed
      else if w = ''cancelled'' then Some Cancelled
      else None)"

text \<open>
  The handler's statement
  \<^verbatim>\<open>UPDATE bookings SET status_booking = ?, catatan_khusus =
  CONCAT(COALESCE(catatan_khusus, ""), "\nDibatalkan: ", ?) WHERE id = ?\<close>
  has three placeholders: a status word, the reason and the booking id. Executed with
  any other list of values the store rejects it (\<open>None\<close>), and so it does for a word
  that is no status.
\<close>

definition cancel_update :: "sql_value list \<Rightarrow> booking list \<Rightarrow> booking list option" where
  "cancel_update vals rows =
     (case vals of
        [SqlText w, SqlText reason, SqlNum i] \<Rightarrow>
          (case status_of_text w of
             None \<Rightarrow> None
           | Some status \<Rightarrow>
               Some (map (\<lambda>b. if b_id b = i
                        then b\<lparr>status_booking := status,
                               catatan_khusus :=
                                 Some ((case catatan_khusus b of None \<Rightarrow> [] | Some c \<Rightarrow> c)
                                   @ [CHR 0x0A] @ ''Dibatalkan: '' @ reason)\<rparr>
                        else b) rows))
      | _ \<Rightarrow> None)"

text \<open>
  The handler passes the array \<^verbatim>\<open>[reason, id]\<close> to that statement. A rejected
  statement throws, and the \<^verbatim>\<open>catch\<close> block answers with a server error.
\<close>

definition cancelBooking ::
  "state \<Rightarrow> nat \<Rightarrow> nat \<Rightarrow> string \<Rightarrow> (error + unit) \<times> state" where
  "cancelBooking s userId i reason =
     (case filter (\<lambda>b. b_id b = i \<and> b_user_id b = userId) (bookings s) of
        [] \<Rightarrow> (Inl BookingNotFound, s)
      | booking # _ \<Rightarrow>
          if status_booking booking \<notin> set [Pending, Confirmed] then (Inl NotCancellable, s)
          else
            (case cancel_update [SqlText reason, SqlNum i] (bookings s) of
               None \<Rightarrow> (Inl ServerError, s)
             | Some rows \<Rightarrow>
                 (Inr (),
                  s\<lparr>bookings := rows,
                    notifications := notifications s @
                      [\<lparr>n_user_id = b_driver_id booking,
                        n_title = ''Booking Dibatalkan'',
                        n_message = ''Booking dengan kode '' @ booking_code booking
                          @ '' telah dibatalkan oleh customer. Alasan: '' @ reason,
                        n_type = ''booking''\<rparr>]\<rparr>)))"

subsection \<open>Submitting a payment: \<^verbatim>\<open>POST /\<close> of payment.js\<close>

text \<open>\<^verbatim>\<open>SELECT SUM(jumlah) ... WHERE booking_id = ? AND status_payment = "verified"\<close>,
  with \<^verbatim>\<open>|| 0\<close> for the empty sum.\<close>

definition verified_total :: "state \<Rightarrow> nat \<Rightarrow> rat" where
  "verified_total s bid =
     sum_list (map jumlah
       (filter (\<lambda>p. p_booking_id p = bid \<and> status_payment p = Verified) (payments s)))"

definition type_text :: "payment_type \<Rightarrow> string" where
  "type_text t = (case t of Dp \<Rightarrow> ''dp'' | Full \<Rightarrow> ''full'' | Pelunasan \<Rightarrow> ''pelunasan'')"

definition set_payment_status :: "nat \<Rightarrow> payment_status \<Rightarrow> booking list \<Rightarrow> booking list" where
  "set_payment_status i status rows =
     map (\<lambda>b. if b_id b = i then b\<lparr>payment_status := status\<rparr> else b) rows"

definition submitPayment ::
  "state \<Rightarrow> nat \<Rightarrow> payment_request \<Rightarrow> (error + payment_result) \<times> state" where
  "submitPayment s userId req =
     (if q_jumlah req < 0 then (Inl ValidationError, s)
      else
        (case filter (\<lambda>b. b_id b = q_booking_id req \<and> b_user_id b = userId) (bookings s) of
           [] \<Rightarrow> (Inl BookingNotFound, s)
         | booking # _ \<Rightarrow>
             if q_payment_type req = Dp \<and> q_jumlah req < total_harga booking * (3 / 10)
             then (Inl InsufficientAmount, s)
             else if (q_payment_type req = Full \<or> q_payment_type req = Pelunasan) \<and>
                     q_jumlah req < total_harga booking - verified_total s (q_booking_id req)
             then (Inl InsufficientAmount, s)
             else if q_payment_method req = Transfer \<and> q_bukti_transfer req = None
             then (Inl ProofRequired, s)
             else
               let status = (if q_payment_method req = Cash then Verified else PayPending);
                   row = \<lparr>p_id = next_payment_id s,
                          p_booking_id = q_booking_id req,
                          jumlah = q_jumlah req,
                          payment_type = q_payment_type req,
                          payment_method = q_payment_method req,
                          bukti_transfer = q_bukti_transfer req,
                          status_payment = status,
                          verified_by = None\<rparr>;
                   s1 = s\<lparr>payments := payments s @ [row],
                          next_payment_id := Suc (next_payment_id s)\<rparr>;
                   s2 = (if (q_payment_type req = Dp \<or> q_payment_type req = Pelunasan) \<and>
                            q_payment_method req = Cash
                         then s1\<lparr>bookings :=
                                set_payment_status (q_booking_id req)
                                  (if q_payment_type req = Dp then Dp_paid else Paid)
                                  (bookings s1)\<rparr>
                         else s1);
                   notes = [\<lparr>n_user_id = d_user_id d,
                              n_title = ''Pembayaran Baru'',
                              n_message = ''Pembayaran '' @ type_text (q_payment_type req)
                                @ '' untuk booking '' @ booking_code booking,
                              n_type = ''payment''\<rparr>.
                            d \<leftarrow> drivers s2, b \<leftarrow> bookings s2,
                            b_driver_id b = d_id d \<and> b_id b = q_booking_id req]
               in (Inr \<lparr>payment_id = next_payment_id s,
                        res_booking_id = q_booking_id req,
                        res_jumlah = q_jumlah req,
                        res_status = status\<rparr>,
                   s2\<lparr>notifications := notifications s2 @ notes\<rparr>)))"

subsection \<open>Deciding a payment: \<^verbatim>\<open>PATCH /:paymentId/verify\<close> of payment.js\<close>

text \<open>The payment joined with its booking, as the handler's query selects it.\<close>

definition payment_with_booking :: "state \<Rightarrow> nat \<Rightarrow> (payment \<times> booking) list" where
  "payment_with_booking s pid =
     [(p, b). p \<leftarrow> payments s, b \<leftarrow> bookings s, p_booking_id p = b_id b \<and> p_id p = pid]"

text \<open>
  The sum the transaction reads after it has written the decision: the verified payments
  of the booking other than this one.
\<close>

definition other_verified_total :: "payment list \<Rightarrow> nat \<Rightarrow> nat \<Rightarrow> rat" where
  "other_verified_total rows bid pid =
     sum_list (map jumlah
       (filter (\<lambda>x. p_booking_id x = bid \<and> status_payment x = Verified \<and> p_id x \<noteq> pid) rows))"

text \<open>
  The handler; \<open>adminId\<close> is the authenticated administrator. It does not read the
  result of its validators, so \<open>status\<close> ranges over the column's three values and
  anything but \<open>Verified\<close> takes the rejection branch.
\<close>

definition verifyPayment ::
  "state \<Rightarrow> nat \<Rightarrow> nat \<Rightarrow> status_payment \<Rightarrow> string option \<Rightarrow> (error + unit) \<times> state" where
  "verifyPayment s adminId paymentId status notes =
     (case payment_with_booking s paymentId of
        [] \<Rightarrow> (Inl PaymentNotFound, s)
      | (p, b) # _ \<Rightarrow>
          if status_payment p \<noteq> PayPending then (Inl AlreadyDecided, s)
          else
            let s1 = s\<lparr>payments :=
                       map (\<lambda>x. if p_id x = paymentId
                                then x\<lparr>status_payment := status, verified_by := Some adminId\<rparr>
                                else x) (payments s)\<rparr>
            in
              if status = Verified then
                let bookingPaymentStatus =
                      (case payment_type p of
                         Dp \<Rightarrow> Dp_paid
                       | _ \<Rightarrow>
                           let totalPaid =
                                 other_verified_total (payments s1) (p_booking_id p) paymentId
                                   + jumlah p
                           in if totalPaid \<ge> total_harga b then Paid else Dp_paid)
                in (Inr (),
                    s1\<lparr>bookings :=
                         set_payment_status (p_booking_id p) bookingPaymentStatus (bookings s1),
                       notifications := notifications s1 @
                         [\<lparr>n_user_id = b_user_id b,
                           n_title = ''Pembayaran Terverifikasi'',
                           n_message = ''Pembayaran '' @ type_text (payment_type p)
                             @ '' untuk booking '' @ booking_code b
                             @ '' telah diverifikasi'',
                           n_type = ''payment''\<rparr>]\<rparr>)
              else
                (Inr (),
                 s1\<lparr>notifications := notifications s1 @
                      [\<lparr>n_user_id = b_user_id b,
                        n_title = ''Pembayaran Ditolak'',
                        n_message = ''Pembayaran ditolak. '' @
                          (case notes of
                             None \<Rightarrow> ''Silakan upload ulang bukti pembayaran yang benar.''
                           | Some [] \<Rightarrow> ''Silakan upload ulang bukti pembayaran yang benar.''
                           | Some t \<Rightarrow> t),
                        n_type = ''payment''\<rparr>]\<rparr>))"

subsection \<open>Sample data\<close>

text \<open>
  One verified driver at 500,000 a day and one pending two-day booking with that driver, days
  20010 and 20011, worth 1,000,000. \<open>sample_today\<close> is local midnight of day 20000 in
  a zone seven hours ahead of UTC.
\<close>

definition sample_driver :: driver where
  "sample_driver =
     \<lparr>d_id = 1, d_user_id = 10, status_verifikasi = ''verified'', is_available = True,
      d_harga_per_hari = 500000, d_nama_lengkap = ''Budi'', d_nomor_hp = ''0811'',
      merk_mobil = ''Avanza''\<rparr>"

definition sample_booking :: booking where
  "sample_booking =
     \<lparr>b_id = 1, booking_code = ''SP24100001'', b_user_id = 20, b_driver_id = 1,
      jenis_layanan = ''tour'', tanggal_mulai = 20010, tanggal_selesai = 20011,
      waktu_mulai = ''08:00'', lokasi_jemput = ''Bandung'', lokasi_tujuan = ''Jakarta'',
      jumlah_penumpang = Some 2, detail_barang = None, catatan_khusus = None,
      total_hari = 2, harga_per_hari = 500000, total_harga = 1000000,
      status_booking = Pending, payment_status = Unpaid\<rparr>"

definition sample_state :: state where
  "sample_state =
     \<lparr>drivers = [sample_driver], bookings = [sample_booking], payments = [],
      notifications = [], next_booking_id = 2, next_payment_id = 1\<rparr>"

definition sample_today :: int where
  "sample_today = 20000 * 86400000 - 25200000"

definition sample_request :: "int \<Rightarrow> int \<Rightarrow> booking_request" where
  "sample_request mulai selesai =
     \<lparr>r_driver_id = 1, r_jenis_layanan = ''tour'', r_tanggal_mulai = mulai,
      r_tanggal_selesai = selesai, r_waktu_mulai = ''09:30'', r_lokasi_jemput = ''Bogor'',
      r_lokasi_tujuan = ''Depok'', r_jumlah_penumpang = Some 3, r_detail_barang = None,
      r_catatan_khusus = Some []\<rparr>"

definition sample_payment_request ::
  "rat \<Rightarrow> payment_type \<Rightarrow> payment_method \<Rightarrow> string option \<Rightarrow> payment_request" where
  "sample_payment_request amount kind method proof =
     \<lparr>q_booking_id = 1, q_jumlah = amount, q_payment_type = kind,
      q_payment_method = method, q_bukti_transfer = proof\<rparr>"

text \<open>The sample booking in a given lifecycle status.\<close>

definition sample_state_in :: "booking_status \<Rightarrow> state" where
  "sample_state_in status =
     sample_state\<lparr>bookings := [sample_booking\<lparr>status_booking := status\<rparr>]\<rparr>"

text \<open>
  The customer (user 20) uploads a deposit of 300,000 by transfer and administrator 99
  verifies it.
\<close>

definition deposit_submitted :: state where
  "deposit_submitted =
     snd (submitPayment sample_state 20
            (sample_payment_request 300000 Dp Transfer (Some ''payment-1.png'')))"

definition deposit_verified :: state where
  "deposit_verified = snd (verifyPayment deposit_submitted 99 1 Verified None)"



section \<open>Properties\<close>

subsection \<open>Auxiliary facts\<close>

lemmas sample_defs =
  sample_state_def sample_booking_def sample_driver_def sample_today_def
  sample_request_def sample_payment_request_def sample_state_in_def

lemmas handler_aux_defs =
  verified_total_def other_verified_total_def payment_with_booking_def
  booking_with_driver_def set_payment_status_def set_status_booking_def type_text_def

lemma set_booking_with_driver:
  "set (booking_with_driver s i) =
     {(b, d). b \<in> set (bookings s) \<and> d \<in> set (drivers s) \<and> b_driver_id b = d_id d \<and> b_id b = i}"
  by (auto simp: booking_with_driver_def)

lemma validTransitions_table:
  "status \<in> set (validTransitions current) \<longleftrightarrow>
     (current, status) \<in> {(Pending, Confirmed), (Pending, Cancelled), (Confirmed, Ongoing),
        (Confirmed, Cancelled), (Ongoing, Completed), (Ongoing, Cancelled)}"
  by (cases current; cases status; simp add: validTransitions_def)

lemma status_after_set_status:
  assumes m: "b' \<in> set (set_status_booking i status bs)" and i: "b_id b' = i"
  shows "status_booking b' = status"
proof -
  from m have "b' \<in> (\<lambda>b. if b_id b = i then b\<lparr>status_booking := status\<rparr> else b) ` set bs"
    by (simp only: set_status_booking_def set_map)
  then obtain x where x: "b' = (if b_id x = i then x\<lparr>status_booking := status\<rparr> else x)"
    by blast
  show ?thesis
  proof (cases "b_id x = i")
    case True
    with x have "b' = x\<lparr>status_booking := status\<rparr>" by simp
    then show ?thesis by simp
  next
    case False
    with x have "b' = x" by simp
    with False i show ?thesis by simp
  qed
qed

lemma reread_after_set_status:
  assumes "booking_with_driver s i \<noteq> []"
    and bs: "bookings s' = set_status_booking i status (bookings s)"
    and ds: "drivers s' = drivers s"
  shows "booking_with_driver s' i \<noteq> [] \<and>
         list_all (\<lambda>(b, d). status_booking b = status) (booking_with_driver s' i)"
proof -
  from assms(1) obtain b d where "(b, d) \<in> set (booking_with_driver s i)"
    by (cases "booking_with_driver s i") auto
  then have bd: "b \<in> set (bookings s)" "d \<in> set (drivers s)" "b_driver_id b = d_id d" "b_id b = i"
    by (simp_all add: set_booking_with_driver)
  have "(if b_id b = i then b\<lparr>status_booking := status\<rparr> else b) \<in> set (bookings s')"
    unfolding bs set_status_booking_def set_map using bd(1) by (rule imageI)
  with bd(4) have "b\<lparr>status_booking := status\<rparr> \<in> set (bookings s')" by simp
  with bd(2,3,4) have "(b\<lparr>status_booking := status\<rparr>, d) \<in> set (booking_with_driver s' i)"
    by (simp add: set_booking_with_driver ds)
  then have ne: "booking_with_driver s' i \<noteq> []" by auto
  have "status_booking b' = status"
    if "(b', d') \<in> set (booking_with_driver s' i)" for b' d'
  proof -
    from that have "b' \<in> set (set_status_booking i status (bookings s))" "b_id b' = i"
      by (simp_all add: set_booking_with_driver bs)
    then show ?thesis by (rule status_after_set_status)
  qed
  then have "list_all (\<lambda>(b, d). status_booking b = status) (booking_with_driver s' i)"
    unfolding list_all_iff by blast
  with ne show ?thesis by simp
qed

lemma deposit_verified_value:
  "deposit_verified =
     sample_state\<lparr>
       bookings := [sample_booking\<lparr>payment_status := Dp_paid\<rparr>],
       payments := [\<lparr>p_id = 1, p_booking_id = 1, jumlah = 300000, payment_type = Dp,
          payment_method = Transfer, bukti_transfer = Some ''payment-1.png'',
          status_payment = Verified, verified_by = Some 99\<rparr>],
       notifications :=
         [\<lparr>n_user_id = 10, n_title = ''Pembayaran Baru'',
           n_message = ''Pembayaran dp untuk booking SP24100001'', n_type = ''payment''\<rparr>,
          \<lparr>n_user_id = 20, n_title = ''Pembayaran Terverifikasi'',
           n_message = ''Pembayaran dp untuk booking SP24100001 telah diverifikasi'',
           n_type = ''payment''\<rparr>],
       next_payment_id := 2\<rparr>"
  by (simp add: deposit_verified_def deposit_submitted_def submitPayment_def verifyPayment_def
      sample_defs handler_aux_defs Let_def)

subsection \<open>Status transitions\<close>

text \<open>
  Claim C2. For a booking the handler finds and a caller who passes its ownership check
  (anyone but a driver other than the booking's own): a pair (current, requested) outside the table
  pending to confirmed or cancelled, confirmed to ongoing or cancelled, ongoing to
  completed or cancelled is answered with \<open>InvalidTransition\<close> and the tables are
  returned unchanged; a pair of the table is accepted, and reading the booking again
  gives the requested status.
\<close>

theorem updateBookingStatus_transition_table:
  assumes found: "booking_with_driver s i = (booking, d) # rest"
    and auth: "userRole \<noteq> RoleDriver \<or> d_user_id d = userId"
  shows "if (status_booking booking, status) \<in>
              {(Pending, Confirmed), (Pending, Cancelled), (Confirmed, Ongoing),
               (Confirmed, Cancelled), (Ongoing, Completed), (Ongoing, Cancelled)}
         then fst (updateBookingStatus s userId userRole i status reason) = Inr (i, status) \<and>
              booking_with_driver (snd (updateBookingStatus s userId userRole i status reason)) i \<noteq> [] \<and>
              list_all (\<lambda>(b, d). status_booking b = status)
                (booking_with_driver (snd (updateBookingStatus s userId userRole i status reason)) i)
         else updateBookingStatus s userId userRole i status reason = (Inl InvalidTransition, s)"
proof -
  let ?r = "updateBookingStatus s userId userRole i status reason"
  show ?thesis
  proof (cases "status \<in> set (validTransitions (status_booking booking))")
    case True
    have ne: "booking_with_driver s i \<noteq> []" using found by simp
    have ok: "fst ?r = Inr (i, status)"
      and bs: "bookings (snd ?r) = set_status_booking i status (bookings s)"
      and ds: "drivers (snd ?r) = drivers s"
      using True auth found by (auto simp: updateBookingStatus_def)
    from reread_after_set_status[OF ne bs ds] ok True show ?thesis
      by (simp only: validTransitions_table if_True simp_thms)
  next
    case False
    then have "?r = (Inl InvalidTransition, s)"
      using auth found by (auto simp: updateBookingStatus_def)
    with False show ?thesis
      by (simp only: validTransitions_table if_False)
  qed
qed

theorem updateBookingStatus_transition_table_witness:
  "updateBookingStatus sample_state 10 RoleDriver 1 Confirmed None =
     (Inr (1, Confirmed),
      sample_state\<lparr>bookings := [sample_booking\<lparr>status_booking := Confirmed\<rparr>],
        notifications := [\<lparr>n_user_id = 20, n_title = ''Update Booking'',
          n_message = ''Booking Anda telah dikonfirmasi oleh driver'', n_type = ''booking''\<rparr>]\<rparr>) \<and>
   updateBookingStatus sample_state 10 RoleDriver 1 Completed None =
     (Inl InvalidTransition, sample_state) \<and>
   updateBookingStatus (sample_state_in Completed) 99 RoleAdmin 1 Cancelled None =
     (Inl InvalidTransition, sample_state_in Completed)"
  using updateBookingStatus_transition_table
    [of sample_state 1 sample_booking sample_driver "[]" RoleDriver 10 Confirmed None]
    updateBookingStatus_transition_table
    [of sample_state 1 sample_booking sample_driver "[]" RoleDriver 10 Completed None]
    updateBookingStatus_transition_table
    [of "sample_state_in Completed" 1 "sample_booking\<lparr>status_booking := Completed\<rparr>"
        sample_driver "[]" RoleAdmin 99 Cancelled None]
  by (simp add: updateBookingStatus_def sample_defs handler_aux_defs validTransitions_def notifMessage_def)

subsection \<open>Customer cancellation\<close>

text \<open>
  The update statement never receives its three values, so the handler never answers
  with success and never changes the tables; from the statuses that cannot be cancelled
  it answers \<open>NotCancellable\<close>.
\<close>

lemma cancel_update_rejected: "cancel_update [SqlText reason, SqlNum i] rows = None"
  by (simp add: cancel_update_def)

lemma cancelBooking_never_succeeds:
  "\<exists>e. cancelBooking s userId i reason = (Inl e, s)"
  by (simp add: cancelBooking_def cancel_update_rejected split: list.split)

lemma cancelBooking_not_cancellable:
  assumes "filter (\<lambda>b. b_id b = i \<and> b_user_id b = userId) (bookings s) = booking # rest"
    and "status_booking booking \<in> {Ongoing, Completed, Cancelled}"
  shows "cancelBooking s userId i reason = (Inl NotCancellable, s)"
  using assms by (auto simp: cancelBooking_def)

lemma cancelBooking_server_error:
  assumes "filter (\<lambda>b. b_id b = i \<and> b_user_id b = userId) (bookings s) = booking # rest"
    and "status_booking booking \<in> {Pending, Confirmed}"
  shows "cancelBooking s userId i reason = (Inl ServerError, s)"
  using assms by (auto simp: cancelBooking_def cancel_update_rejected)

text \<open>
  Claim C4, evaluated on the sample booking: a customer's cancellation of their own
  pending or confirmed booking ends in the handler's \<^verbatim>\<open>catch\<close> block, because the
  update statement is executed with two values for three placeholders; the booking
  stays as it was.
\<close>

theorem cancelBooking_pending_fails:
  "cancelBooking (sample_state_in Pending) 20 1 ''berubah rencana'' =
     (Inl ServerError, sample_state_in Pending) \<and>
   cancelBooking (sample_state_in Confirmed) 20 1 ''berubah rencana'' =
     (Inl ServerError, sample_state_in Confirmed)"
  by (simp add: cancelBooking_def cancel_update_def sample_defs)

subsection \<open>Submitting a payment\<close>

text \<open>What the handler answers and stores when none of its checks rejects.\<close>

lemma submitPayment_accepted:
  assumes found: "filter (\<lambda>b. b_id b = q_booking_id req \<and> b_user_id b = userId) (bookings s)
                    = booking # rest"
    and nonneg: "0 \<le> q_jumlah req"
    and dp_ok: "\<not> (q_payment_type req = Dp \<and> q_jumlah req < total_harga booking * (3 / 10))"
    and rest_ok: "\<not> ((q_payment_type req = Full \<or> q_payment_type req = Pelunasan) \<and>
                     q_jumlah req < total_harga booking - verified_total s (q_booking_id req))"
    and proof_ok: "\<not> (q_payment_method req = Transfer \<and> q_bukti_transfer req = None)"
  shows "fst (submitPayment s userId req) =
           Inr \<lparr>payment_id = next_payment_id s, res_booking_id = q_booking_id req,
                res_jumlah = q_jumlah req,
                res_status = (if q_payment_method req = Cash then Verified else PayPending)\<rparr>"
    and "payments (snd (submitPayment s userId req)) =
           payments s @
             [\<lparr>p_id = next_payment_id s, p_booking_id = q_booking_id req,
               jumlah = q_jumlah req, payment_type = q_payment_type req,
               payment_method = q_payment_method req,
               bukti_transfer = q_bukti_transfer req,
               status_payment = (if q_payment_method req = Cash then Verified else PayPending),
               verified_by = None\<rparr>]"
    and "bookings (snd (submitPayment s userId req)) =
           (if (q_payment_type req = Dp \<or> q_payment_type req = Pelunasan) \<and>
               q_payment_method req = Cash
            then set_payment_status (q_booking_id req)
                   (if q_payment_type req = Dp then Dp_paid else Paid) (bookings s)
            else bookings s)"
proof -
  have n: "\<not> q_jumlah req < 0" using nonneg by simp
  show "fst (submitPayment s userId req) =
           Inr \<lparr>payment_id = next_payment_id s, res_booking_id = q_booking_id req,
                res_jumlah = q_jumlah req,
                res_status = (if q_payment_method req = Cash then Verified else PayPending)\<rparr>"
    unfolding submitPayment_def Let_def found list.case
    using n dp_ok rest_ok proof_ok by (simp only: if_False if_True fst_conv)
  show "payments (snd (submitPayment s userId req)) =
           payments s @
             [\<lparr>p_id = next_payment_id s, p_booking_id = q_booking_id req,
               jumlah = q_jumlah req, payment_type = q_payment_type req,
               payment_method = q_payment_method req,
               bukti_transfer = q_bukti_transfer req,
               status_payment = (if q_payment_method req = Cash then Verified else PayPending),
               verified_by = None\<rparr>]"
    unfolding submitPayment_def Let_def found list.case
    using n dp_ok rest_ok proof_ok by (simp only: if_False if_True snd_conv) simp
  show "bookings (snd (submitPayment s userId req)) =
           (if (q_payment_type req = Dp \<or> q_payment_type req = Pelunasan) \<and>
               q_payment_method req = Cash
            then set_payment_status (q_booking_id req)
                   (if q_payment_type req = Dp then Dp_paid else Paid) (bookings s)
            else bookings s)"
    unfolding submitPayment_def Let_def found list.case
    using n dp_ok rest_ok proof_ok by (simp only: if_False if_True snd_conv) simp
qed

subsection \<open>Cash payments\<close>

text \<open>
  An accepted cash payment of kind \<open>Full\<close> is stored as verified and leaves every
  booking row as it was.
\<close>

lemma submitPayment_cash_full_keeps_bookings:
  assumes "filter (\<lambda>b. b_id b = q_booking_id req \<and> b_user_id b = userId) (bookings s)
             = booking # rest"
    and "0 \<le> q_jumlah req"
    and "q_payment_type req = Full" and "q_payment_method req = Cash"
    and "total_harga booking - verified_total s (q_booking_id req) \<le> q_jumlah req"
  shows "bookings (snd (submitPayment s userId req)) = bookings s"
    and "\<exists>r. fst (submitPayment s userId req) = Inr r \<and> res_status r = Verified"
proof -
  have a: "\<not> (q_payment_type req = Dp \<and> q_jumlah req < total_harga booking * (3 / 10))"
    using assms(3) by simp
  have b: "\<not> ((q_payment_type req = Full \<or> q_payment_type req = Pelunasan) \<and>
               q_jumlah req < total_harga booking - verified_total s (q_booking_id req))"
    using assms(5) by simp
  have c: "\<not> (q_payment_method req = Transfer \<and> q_bukti_transfer req = None)"
    using assms(4) by simp
  note acc = submitPayment_accepted[OF assms(1) assms(2) a b c]
  from acc(3) assms(3) show "bookings (snd (submitPayment s userId req)) = bookings s"
    by simp
  from acc(1) assms(4)
  show "\<exists>r. fst (submitPayment s userId req) = Inr r \<and> res_status r = Verified"
    by simp
qed

text \<open>
  Claim C5, evaluated on the sample booking: a cash payment of kind \<open>Full\<close> over the
  whole price is stored as verified, and the booking's payment status is still
  \<open>Unpaid\<close> afterwards.
\<close>

theorem submitPayment_cash_full_leaves_unpaid:
  "fst (submitPayment sample_state 20 (sample_payment_request 1000000 Full Cash None)) =
     Inr \<lparr>payment_id = 1, res_booking_id = 1, res_jumlah = 1000000, res_status = Verified\<rparr> \<and>
   map payment_status
     (bookings (snd (submitPayment sample_state 20 (sample_payment_request 1000000 Full Cash None))))
     = [Unpaid]"
  by (simp add: submitPayment_def sample_defs handler_aux_defs Let_def)





text \<open>
  Claim C6, as the code has it. For a submission that passes the amount check: a
  transfer without a proof reference is answered with \<open>ProofRequired\<close> and nothing is
  stored; a transfer with proof and an e-wallet payment (with or without proof) are
  stored with status pending.
\<close>

theorem submitPayment_proof_of_transfer:
  assumes found: "filter (\<lambda>b. b_id b = q_booking_id req \<and> b_user_id b = userId) (bookings s)
                    = booking # rest"
    and nonneg: "0 \<le> q_jumlah req"
    and enough: "if q_payment_type req = Dp
                 then total_harga booking * (3 / 10) \<le> q_jumlah req
                 else total_harga booking - verified_total s (q_booking_id req) \<le> q_jumlah req"
  shows "(q_payment_method req = Transfer \<and> q_bukti_transfer req = None
            \<longrightarrow> submitPayment s userId req = (Inl ProofRequired, s)) \<and>
         (q_payment_method req = E_wallet \<or>
          (q_payment_method req = Transfer \<and> q_bukti_transfer req \<noteq> None)
            \<longrightarrow> (\<exists>r. fst (submitPayment s userId req) = Inr r \<and> res_status r = PayPending) \<and>
                (\<exists>row. payments (snd (submitPayment s userId req)) = payments s @ [row] \<and>
                       status_payment row = PayPending \<and>
                       bukti_transfer row = q_bukti_transfer req))"
proof -
  have n: "\<not> q_jumlah req < 0" using nonneg by simp
  from enough have dp_ok:
      "\<not> (q_payment_type req = Dp \<and> q_jumlah req < total_harga booking * (3 / 10))"
    and rest_ok: "\<not> ((q_payment_type req = Full \<or> q_payment_type req = Pelunasan) \<and>
                   q_jumlah req < total_harga booking - verified_total s (q_booking_id req))"
    by (auto split: if_splits)
  have missing: "submitPayment s userId req = (Inl ProofRequired, s)"
    if "q_payment_method req = Transfer \<and> q_bukti_transfer req = None"
    using that n dp_ok rest_ok by (simp add: submitPayment_def found)
  have stored:
    "(\<exists>r. fst (submitPayment s userId req) = Inr r \<and> res_status r = PayPending) \<and>
     (\<exists>row. payments (snd (submitPayment s userId req)) = payments s @ [row] \<and>
            status_payment row = PayPending \<and> bukti_transfer row = q_bukti_transfer req)"
    if m: "q_payment_method req = E_wallet \<or>
           (q_payment_method req = Transfer \<and> q_bukti_transfer req \<noteq> None)"
  proof -
    from m have proof_ok: "\<not> (q_payment_method req = Transfer \<and> q_bukti_transfer req = None)"
      and not_cash: "q_payment_method req \<noteq> Cash"
      by auto
    note acc = submitPayment_accepted[OF found nonneg dp_ok rest_ok proof_ok]
    from acc(1) not_cash
    have "\<exists>r. fst (submitPayment s userId req) = Inr r \<and> res_status r = PayPending"
      by simp
    moreover from acc(2) not_cash
    have "\<exists>row. payments (snd (submitPayment s userId req)) = payments s @ [row] \<and>
            status_payment row = PayPending \<and> bukti_transfer row = q_bukti_transfer req"
      by simp
    ultimately show ?thesis by (rule conjI)
  qed
  from missing stored show ?thesis by blast
qed

theorem submitPayment_proof_of_transfer_witness:
  "submitPayment sample_state 20 (sample_payment_request 300000 Dp Transfer None)
     = (Inl ProofRequired, sample_state) \<and>
   map status_payment
     (payments (snd (submitPayment sample_state 20
        (sample_payment_request 300000 Dp Transfer (Some ''payment-1.png''))))) = [PayPending] \<and>
   map status_payment
     (payments (snd (submitPayment sample_state 20
        (sample_payment_request 300000 Dp E_wallet (Some ''payment-1.png''))))) = [PayPending]"
proof -
  have f1: "filter (\<lambda>b. b_id b = q_booking_id (sample_payment_request a k m p) \<and> b_user_id b = 20)
              (bookings sample_state) = sample_booking # []" for a k m p
    by (simp add: sample_defs)
  have n: "0 \<le> q_jumlah (sample_payment_request 300000 k m p)" for k m p
    by (simp add: sample_payment_request_def)
  have e: "if q_payment_type (sample_payment_request 300000 Dp m p) = Dp
           then total_harga sample_booking * (3 / 10) \<le> q_jumlah (sample_payment_request 300000 Dp m p)
           else total_harga sample_booking
                  - verified_total sample_state (q_booking_id (sample_payment_request 300000 Dp m p))
                \<le> q_jumlah (sample_payment_request 300000 Dp m p)" for m p
    by (simp add: sample_payment_request_def sample_booking_def)
  have a: "submitPayment sample_state 20 (sample_payment_request 300000 Dp Transfer None)
     = (Inl ProofRequired, sample_state)"
    using submitPayment_proof_of_transfer[OF f1 n e, of Transfer None]
    by (simp add: sample_payment_request_def)
  have b: "map status_payment
     (payments (snd (submitPayment sample_state 20
        (sample_payment_request 300000 Dp Transfer (Some ''payment-1.png''))))) = [PayPending]"
    using submitPayment_proof_of_transfer[OF f1 n e, of Transfer "Some ''payment-1.png''"]
    by (auto simp: sample_payment_request_def sample_state_def)
  have c: "map status_payment
     (payments (snd (submitPayment sample_state 20
        (sample_payment_request 300000 Dp E_wallet (Some ''payment-1.png''))))) = [PayPending]"
    using submitPayment_proof_of_transfer[OF f1 n e, of E_wallet "Some ''payment-1.png''"]
    by (auto simp: sample_payment_request_def sample_state_def)
  from a b c show ?thesis by simp
qed

text \<open>
  Claim C6 as stated fails for e-wallet: on the sample booking an e-wallet deposit
  without any proof reference is accepted and stored with an empty proof column.
\<close>

theorem ewallet_without_proof_accepted:
  "fst (submitPayment sample_state 20 (sample_payment_request 300000 Dp E_wallet None))
     = Inr \<lparr>payment_id = 1, res_booking_id = 1, res_jumlah = 300000, res_status = PayPending\<rparr> \<and>
   map bukti_transfer
     (payments (snd (submitPayment sample_state 20
        (sample_payment_request 300000 Dp E_wallet None)))) = [None]"
  by (simp add: submitPayment_def sample_defs handler_aux_defs Let_def)



subsection \<open>Creating a booking\<close>

text \<open>
  Calendar dates are whole days, so the difference of two time stamps is a whole number
  of days and rounding it up or down gives the same count.
\<close>

lemma getTime_less: "getTime a < getTime b \<longleftrightarrow> a < b"
  by (simp add: getTime_def msPerDay_def)

lemma day_count: "ceil_div (getTime selesai - getTime mulai) msPerDay = selesai - mulai"
proof -
  have "- (getTime selesai - getTime mulai) = (mulai - selesai) * msPerDay"
    by (simp add: getTime_def algebra_simps)
  moreover have "msPerDay \<noteq> 0" by (simp add: msPerDay_def)
  ultimately show ?thesis by (simp add: ceil_div_def)
qed


lemma non_terminal: "status \<notin> set [Cancelled, Completed] \<longleftrightarrow> status \<in> {Pending, Confirmed, Ongoing}"
  by (cases status) simp_all

lemma conflicting_overlap:
  assumes "tanggal_mulai b \<le> tanggal_selesai b" and "mulai \<le> selesai"
  shows "conflicting did mulai selesai b \<longleftrightarrow>
           b_driver_id b = did \<and> status_booking b \<in> {Pending, Confirmed, Ongoing} \<and>
           tanggal_mulai b \<le> selesai \<and> mulai \<le> tanggal_selesai b"
proof -
  have "(between (tanggal_mulai b) mulai selesai \<or> between (tanggal_selesai b) mulai selesai \<or>
         between mulai (tanggal_mulai b) (tanggal_selesai b) \<or>
         between selesai (tanggal_mulai b) (tanggal_selesai b))
        \<longleftrightarrow> tanggal_mulai b \<le> selesai \<and> mulai \<le> tanggal_selesai b"
    using assms unfolding between_def by linarith
  then show ?thesis unfolding conflicting_def non_terminal by blast
qed

lemma createBooking_created:
  assumes valid: "valid_booking_request req"
    and future: "today \<le> getTime (r_tanggal_mulai req)"
    and ordered: "r_tanggal_mulai req \<le> r_tanggal_selesai req"
    and driver: "available_drivers s (r_driver_id req) = driver # ds"
    and free: "filter (conflicting (r_driver_id req) (r_tanggal_mulai req) (r_tanggal_selesai req))
                 (bookings s) = []"
  shows "createBooking today code s userId userName req =
     (Inr \<lparr>bookingId = next_booking_id s, bookingCode = code,
           totalHari = r_tanggal_selesai req - r_tanggal_mulai req + 1,
           totalHarga = of_int (r_tanggal_selesai req - r_tanggal_mulai req + 1)
                          * d_harga_per_hari driver,
           driver_nama = d_nama_lengkap driver, driver_nomor_hp = d_nomor_hp driver,
           driver_mobil = merk_mobil driver\<rparr>,
      s\<lparr>bookings := bookings s @
           [\<lparr>b_id = next_booking_id s, booking_code = code, b_user_id = userId,
             b_driver_id = r_driver_id req, jenis_layanan = r_jenis_layanan req,
             tanggal_mulai = r_tanggal_mulai req, tanggal_selesai = r_tanggal_selesai req,
             waktu_mulai = r_waktu_mulai req, lokasi_jemput = r_lokasi_jemput req,
             lokasi_tujuan = r_lokasi_tujuan req,
             jumlah_penumpang = num_or_null (r_jumlah_penumpang req),
             detail_barang = str_or_null (r_detail_barang req),
             catatan_khusus = str_or_null (r_catatan_khusus req),
             total_hari = r_tanggal_selesai req - r_tanggal_mulai req + 1,
             harga_per_hari = d_harga_per_hari driver,
             total_harga = of_int (r_tanggal_selesai req - r_tanggal_mulai req + 1)
                             * d_harga_per_hari driver,
             status_booking = Pending, payment_status = default_payment_status\<rparr>],
        notifications := notifications s @
           [\<lparr>n_user_id = d_user_id driver, n_title = ''Booking Baru'',
             n_message = ''Anda mendapat booking baru dari '' @ userName @ '' untuk ''
               @ r_jenis_layanan req,
             n_type = ''booking''\<rparr>],
        next_booking_id := Suc (next_booking_id s)\<rparr>)"
proof -
  have a: "\<not> getTime (r_tanggal_mulai req) < today" using future by simp
  have b: "\<not> getTime (r_tanggal_selesai req) < getTime (r_tanggal_mulai req)"
    using ordered by (simp add: getTime_less)
  show ?thesis
    unfolding createBooking_def Let_def driver list.case free day_count
    using valid a b by simp
qed

lemma createBooking_rejected:
  assumes valid: "valid_booking_request req"
    and future: "today \<le> getTime (r_tanggal_mulai req)"
    and ordered: "r_tanggal_mulai req \<le> r_tanggal_selesai req"
    and driver: "available_drivers s (r_driver_id req) = driver # ds"
    and taken: "filter (conflicting (r_driver_id req) (r_tanggal_mulai req) (r_tanggal_selesai req))
                 (bookings s) \<noteq> []"
  shows "createBooking today code s userId userName req = (Inl ScheduleConflict, s)"
proof -
  have a: "\<not> getTime (r_tanggal_mulai req) < today" using future by simp
  have b: "\<not> getTime (r_tanggal_selesai req) < getTime (r_tanggal_mulai req)"
    using ordered by (simp add: getTime_less)
  show ?thesis
    unfolding createBooking_def Let_def driver list.case
    using valid a b taken by simp
qed

lemma createBooking_InrD:
  assumes "createBooking today code s userId userName req = (Inr r, s')"
  shows "valid_booking_request req" 
    and "today \<le> getTime (r_tanggal_mulai req)"
    and "r_tanggal_mulai req \<le> r_tanggal_selesai req"
    and "available_drivers s (r_driver_id req) \<noteq> []"
    and "filter (conflicting (r_driver_id req) (r_tanggal_mulai req) (r_tanggal_selesai req))
           (bookings s) = []"
proof -
  show "valid_booking_request req"
    using assms by (cases "valid_booking_request req") (simp_all add: createBooking_def)
  then have v: "valid_booking_request req" .
  show f: "today \<le> getTime (r_tanggal_mulai req)"
    using assms v by (cases "today \<le> getTime (r_tanggal_mulai req)") (simp_all add: createBooking_def Let_def)
  show o: "r_tanggal_mulai req \<le> r_tanggal_selesai req"
    using assms v f by (cases "r_tanggal_mulai req \<le> r_tanggal_selesai req")
      (simp_all add: createBooking_def Let_def getTime_less)
  have a: "\<not> getTime (r_tanggal_mulai req) < today" using f by simp
  have b: "\<not> getTime (r_tanggal_selesai req) < getTime (r_tanggal_mulai req)"
    using o by (simp add: getTime_less)
  show d: "available_drivers s (r_driver_id req) \<noteq> []"
    using assms v a b by (cases "available_drivers s (r_driver_id req)")
      (simp_all add: createBooking_def Let_def)
  then obtain driver ds where dr: "available_drivers s (r_driver_id req) = driver # ds"
    by (cases "available_drivers s (r_driver_id req)") simp_all
  show "filter (conflicting (r_driver_id req) (r_tanggal_mulai req) (r_tanggal_selesai req))
           (bookings s) = []"
  proof (rule ccontr)
    assume "\<not> ?thesis"
    from createBooking_rejected[OF v f o dr this] assms show False by simp
  qed
qed

lemma overlap_conflicting:
  assumes "b_driver_id b = did" and "status_booking b \<in> {Pending, Confirmed, Ongoing}"
    and "tanggal_mulai b \<le> selesai" and "mulai \<le> tanggal_selesai b"
  shows "conflicting did mulai selesai b"
proof -
  have "between (tanggal_mulai b) mulai selesai \<or> between (tanggal_selesai b) mulai selesai \<or>
        between mulai (tanggal_mulai b) (tanggal_selesai b) \<or>
        between selesai (tanggal_mulai b) (tanggal_selesai b)"
    using assms(3,4) unfolding between_def by linarith
  with assms(1,2) show ?thesis unfolding conflicting_def non_terminal by blast
qed

lemma createBooking_keeps_dates_ordered:
  assumes "\<forall>b\<in>set (bookings s). tanggal_mulai b \<le> tanggal_selesai b"
  shows "\<forall>b\<in>set (bookings (snd (createBooking today code s userId userName req))).
           tanggal_mulai b \<le> tanggal_selesai b"
proof (cases "createBooking today code s userId userName req")
  case (Pair res s')
  show ?thesis
  proof (cases res)
    case (Inl e)
    have "s' = s"
      using Pair Inl
      by (auto simp: createBooking_def Let_def split: if_splits list.splits)
    with Pair assms show ?thesis by simp
  next
    case (Inr r)
    with Pair have c: "createBooking today code s userId userName req = (Inr r, s')" by simp
    note d = createBooking_InrD[OF c]
    from d(4) obtain driver ds where dr: "available_drivers s (r_driver_id req) = driver # ds"
      by (cases "available_drivers s (r_driver_id req)") simp_all
    from createBooking_created[OF d(1) d(2) d(3) dr d(5), of code userId userName] assms d(3)
    show ?thesis by simp
  qed
qed

text \<open>
  Claim C1. For a request that passes the validators and the two date checks and names
  a verified, available driver: if some booking of that driver in status pending,
  confirmed or ongoing has a date range \<open>[s1, e1]\<close> with \<open>s1 \<le> e2\<close> and \<open>s2 \<le> e1\<close>
  for the requested range \<open>[s2, e2]\<close>, the handler answers \<open>ScheduleConflict\<close> and
  the tables are unchanged; if there is none (completed and cancelled bookings do not
  count) and the stored bookings have ordered dates, as every booking the handler
  stores has, the booking is created in status pending.
\<close>

theorem createBooking_schedule_conflict:
  assumes valid: "valid_booking_request req"
    and future: "today \<le> getTime (r_tanggal_mulai req)"
    and ordered: "r_tanggal_mulai req \<le> r_tanggal_selesai req"
    and driver: "available_drivers s (r_driver_id req) \<noteq> []"
  shows "((\<exists>b\<in>set (bookings s).
             b_driver_id b = r_driver_id req \<and>
             status_booking b \<in> {Pending, Confirmed, Ongoing} \<and>
             tanggal_mulai b \<le> r_tanggal_selesai req \<and>
             r_tanggal_mulai req \<le> tanggal_selesai b)
          \<longrightarrow> createBooking today code s userId userName req = (Inl ScheduleConflict, s)) \<and>
         ((\<forall>b\<in>set (bookings s). tanggal_mulai b \<le> tanggal_selesai b) \<and>
          \<not> (\<exists>b\<in>set (bookings s).
             b_driver_id b = r_driver_id req \<and>
             status_booking b \<in> {Pending, Confirmed, Ongoing} \<and>
             tanggal_mulai b \<le> r_tanggal_selesai req \<and>
             r_tanggal_mulai req \<le> tanggal_selesai b)
          \<longrightarrow> (\<exists>r. fst (createBooking today code s userId userName req) = Inr r) \<and>
              (\<exists>row. bookings (snd (createBooking today code s userId userName req))
                        = bookings s @ [row] \<and>
                      b_driver_id row = r_driver_id req \<and>
                      tanggal_mulai row = r_tanggal_mulai req \<and>
                      tanggal_selesai row = r_tanggal_selesai req \<and>
                      status_booking row = Pending))"
proof -
  let ?conf = "conflicting (r_driver_id req) (r_tanggal_mulai req) (r_tanggal_selesai req)"
  from driver obtain d ds where dr: "available_drivers s (r_driver_id req) = d # ds"
    by (cases "available_drivers s (r_driver_id req)") simp_all
  have taken: "createBooking today code s userId userName req = (Inl ScheduleConflict, s)"
    if "\<exists>b\<in>set (bookings s).
             b_driver_id b = r_driver_id req \<and>
             status_booking b \<in> {Pending, Confirmed, Ongoing} \<and>
             tanggal_mulai b \<le> r_tanggal_selesai req \<and>
             r_tanggal_mulai req \<le> tanggal_selesai b"
  proof -
    from that obtain b where "b \<in> set (bookings s)" and "?conf b"
      using overlap_conflicting by blast
    then have "filter ?conf (bookings s) \<noteq> []"
      by (auto simp: filter_empty_conv)
    then show ?thesis by (rule createBooking_rejected[OF valid future ordered dr])
  qed
  have free:
    "(\<exists>r. fst (createBooking today code s userId userName req) = Inr r) \<and>
     (\<exists>row. bookings (snd (createBooking today code s userId userName req))
               = bookings s @ [row] \<and>
             b_driver_id row = r_driver_id req \<and>
             tanggal_mulai row = r_tanggal_mulai req \<and>
             tanggal_selesai row = r_tanggal_selesai req \<and>
             status_booking row = Pending)"
    if wf: "\<forall>b\<in>set (bookings s). tanggal_mulai b \<le> tanggal_selesai b"
      and none: "\<not> (\<exists>b\<in>set (bookings s).
             b_driver_id b = r_driver_id req \<and>
             status_booking b \<in> {Pending, Confirmed, Ongoing} \<and>
             tanggal_mulai b \<le> r_tanggal_selesai req \<and>
             r_tanggal_mulai req \<le> tanggal_selesai b)"
  proof -
    have "\<not> ?conf b" if "b \<in> set (bookings s)" for b
      using that wf none conflicting_overlap[OF _ ordered, of b "r_driver_id req"] by blast
    then have "filter ?conf (bookings s) = []"
      by (simp add: filter_empty_conv)
    from createBooking_created[OF valid future ordered dr this, of code userId userName]
    show ?thesis by simp
  qed
  from taken free show ?thesis by blast
qed

theorem createBooking_schedule_conflict_witness:
  "createBooking sample_today ''SP24100002'' sample_state 21 ''Ani'' (sample_request 20011 20013)
     = (Inl ScheduleConflict, sample_state) \<and>
   fst (createBooking sample_today ''SP24100002'' (sample_state_in Completed) 21 ''Ani''
          (sample_request 20011 20013))
     = Inr \<lparr>bookingId = 2, bookingCode = ''SP24100002'', totalHari = 3, totalHarga = 1500000,
            driver_nama = ''Budi'', driver_nomor_hp = ''0811'', driver_mobil = ''Avanza''\<rparr> \<and>
   map tanggal_mulai
     (bookings (snd (createBooking sample_today ''SP24100002'' sample_state 21 ''Ani''
        (sample_request 20012 20012)))) = [20010, 20012]"
proof -
  have v: "valid_booking_request (sample_request a b)" for a b
    by (simp add: valid_booking_request_def valid_waktu_def is_digit_def sample_request_def)
  have f: "sample_today \<le> getTime (r_tanggal_mulai (sample_request 20011 b))"
    "sample_today \<le> getTime (r_tanggal_mulai (sample_request 20012 b))" for b
    by (simp_all add: sample_request_def sample_today_def getTime_def msPerDay_def)
  have o: "r_tanggal_mulai (sample_request 20011 20013) \<le> r_tanggal_selesai (sample_request 20011 20013)"
    "r_tanggal_mulai (sample_request 20012 20012) \<le> r_tanggal_selesai (sample_request 20012 20012)"
    by (simp_all add: sample_request_def)
  have d: "available_drivers sample_state (r_driver_id (sample_request a b)) \<noteq> []"
    "available_drivers (sample_state_in st) (r_driver_id (sample_request a b)) \<noteq> []" for a b st
    by (simp_all add: available_drivers_def sample_defs)
  have a: "createBooking sample_today ''SP24100002'' sample_state 21 ''Ani'' (sample_request 20011 20013)
     = (Inl ScheduleConflict, sample_state)"
    using createBooking_schedule_conflict[OF v f(1) o(1) d(1), of "''SP24100002''" 21 "''Ani''"]
    by (simp add: sample_defs)
  have b: "\<exists>r. fst (createBooking sample_today ''SP24100002'' (sample_state_in Completed) 21 ''Ani''
          (sample_request 20011 20013)) = Inr r"
    using createBooking_schedule_conflict[OF v f(1) o(1) d(2), of Completed "''SP24100002''" 21 "''Ani''"]
    by (simp add: sample_defs)
  have c: "map tanggal_mulai
     (bookings (snd (createBooking sample_today ''SP24100002'' sample_state 21 ''Ani''
        (sample_request 20012 20012)))) = [20010, 20012]"
    using createBooking_schedule_conflict[OF v f(2) o(2) d(1), of "''SP24100002''" 21 "''Ani''"]
    by (auto simp: sample_defs)
  have b': "fst (createBooking sample_today ''SP24100002'' (sample_state_in Completed) 21 ''Ani''
          (sample_request 20011 20013))
     = Inr \<lparr>bookingId = 2, bookingCode = ''SP24100002'', totalHari = 3, totalHarga = 1500000,
            driver_nama = ''Budi'', driver_nomor_hp = ''0811'', driver_mobil = ''Avanza''\<rparr>"
    using v[of 20011 20013]
    by (simp add: createBooking_def Let_def sample_defs available_drivers_def conflicting_def
        between_def getTime_def msPerDay_def ceil_div_def)
  from a b' c show ?thesis by simp
qed



subsection \<open>Deciding a payment\<close>

lemma set_payment_with_booking:
  "set (payment_with_booking s pid) =
     {(p, b). p \<in> set (payments s) \<and> b \<in> set (bookings s) \<and> p_booking_id p = b_id b \<and> p_id p = pid}"
  by (auto simp: payment_with_booking_def)




lemma deposit_submitted_value:
  "deposit_submitted =
     sample_state\<lparr>
       payments := [\<lparr>p_id = 1, p_booking_id = 1, jumlah = 300000, payment_type = Dp,
          payment_method = Transfer, bukti_transfer = Some ''payment-1.png'',
          status_payment = PayPending, verified_by = None\<rparr>],
       notifications :=
         [\<lparr>n_user_id = 10, n_title = ''Pembayaran Baru'',
           n_message = ''Pembayaran dp untuk booking SP24100001'', n_type = ''payment''\<rparr>],
       next_payment_id := 2\<rparr>"
  by (simp add: deposit_submitted_def submitPayment_def sample_defs handler_aux_defs Let_def)





subsection \<open>Deciding a payment twice\<close>

lemma b_id_set_payment_status:
  "map b_id (set_payment_status i status rows) = map b_id rows"
  by (induction rows) (simp_all add: set_payment_status_def)

lemma decided_after_decision:
  assumes found: "payment_with_booking s pid = (p, b) # rest"
    and pending: "status_payment p = PayPending"
  shows "\<exists>p' b' rest'.
           payment_with_booking (snd (verifyPayment s adminId pid decision notes)) pid
             = (p', b') # rest' \<and> status_payment p' = decision"
proof -
  let ?s' = "snd (verifyPayment s adminId pid decision notes)"
  let ?upd = "\<lambda>x. if p_id x = pid
                   then x\<lparr>status_payment := decision, verified_by := Some adminId\<rparr> else x"
  have np: "\<not> status_payment p \<noteq> PayPending" using pending by simp
  have pays: "payments ?s' = map ?upd (payments s)"
    unfolding verifyPayment_def found list.case prod.case Let_def using np by simp
  have ids: "map b_id (bookings ?s') = map b_id (bookings s)"
    unfolding verifyPayment_def found list.case prod.case Let_def using np
    by (simp add: b_id_set_payment_status)
  have "(p, b) \<in> set (payment_with_booking s pid)" using found by simp
  then have mem: "p \<in> set (payments s)" and bm: "b \<in> set (bookings s)"
    and link: "p_booking_id p = b_id b" and pid: "p_id p = pid"
    by (simp_all add: set_payment_with_booking)
  from mem have "?upd p \<in> set (payments ?s')" unfolding pays set_map by (rule imageI)
  moreover from bm have "b_id b \<in> set (map b_id (bookings ?s'))" unfolding ids by simp
  then obtain b2 where "b2 \<in> set (bookings ?s')" and "b_id b2 = b_id b" by auto
  ultimately have "(?upd p, b2) \<in> set (payment_with_booking ?s' pid)"
    using link pid by (simp add: set_payment_with_booking)
  then obtain p' b' rest' where hd: "payment_with_booking ?s' pid = (p', b') # rest'"
    by (cases "payment_with_booking ?s' pid") auto
  then have "(p', b') \<in> set (payment_with_booking ?s' pid)" by simp
  then have p'mem: "p' \<in> set (payments ?s')" and p'id: "p_id p' = pid"
    by (simp_all add: set_payment_with_booking)
  from p'mem have "p' \<in> set (map ?upd (payments s))" by (simp only: pays)
  then have "p' \<in> ?upd ` set (payments s)" by (simp only: set_map)
  then obtain x where x: "p' = ?upd x" by blast
  have "status_payment p' = decision"
  proof (cases "p_id x = pid")
    case True
    with x show ?thesis by simp
  next
    case False
    with x have "p' = x" by simp
    with False p'id show ?thesis by simp
  qed
  with hd show ?thesis by blast
qed

text \<open>
  Claim C9. When the payment the handler finds is no longer pending (it is verified or
  rejected), a decision of either kind is answered with \<open>AlreadyDecided\<close> and the
  tables, and with them the booking's payment status, are returned unchanged. In
  particular, after a pending payment has been verified or rejected, a second call for
  the same payment is answered so.
\<close>

theorem verifyPayment_already_decided:
  assumes found: "payment_with_booking s paymentId = (p, b) # rest"
  shows "(status_payment p \<noteq> PayPending \<longrightarrow>
            verifyPayment s adminId paymentId decision notes = (Inl AlreadyDecided, s)) \<and>
         (status_payment p = PayPending \<and> decision \<noteq> PayPending \<longrightarrow>
            verifyPayment (snd (verifyPayment s adminId paymentId decision notes))
                adminId' paymentId decision' notes'
              = (Inl AlreadyDecided, snd (verifyPayment s adminId paymentId decision notes)))"
proof -
  have first: "verifyPayment s adminId paymentId decision notes = (Inl AlreadyDecided, s)"
    if "status_payment p \<noteq> PayPending"
    using that by (simp add: verifyPayment_def found)
  have second:
    "verifyPayment (snd (verifyPayment s adminId paymentId decision notes))
         adminId' paymentId decision' notes'
       = (Inl AlreadyDecided, snd (verifyPayment s adminId paymentId decision notes))"
    if "status_payment p = PayPending \<and> decision \<noteq> PayPending"
  proof -
    from that have pending: "status_payment p = PayPending" and dec: "decision \<noteq> PayPending"
      by simp_all
    have "\<exists>p' b' rest'.
            payment_with_booking (snd (verifyPayment s adminId paymentId decision notes)) paymentId
              = (p', b') # rest' \<and> status_payment p' = decision"
      by (rule decided_after_decision[OF found pending])
    then obtain p' b' rest' where
      hd: "payment_with_booking (snd (verifyPayment s adminId paymentId decision notes)) paymentId
             = (p', b') # rest'"
      and st: "status_payment p' = decision"
      by blast
    from st dec have "status_payment p' \<noteq> PayPending" by simp
    then show ?thesis
      unfolding verifyPayment_def[of "snd (verifyPayment s adminId paymentId decision notes)"] hd
      by simp
  qed
  from first second show ?thesis by blast
qed

theorem verifyPayment_already_decided_witness:
  "verifyPayment deposit_verified 98 1 Verified None = (Inl AlreadyDecided, deposit_verified) \<and>
   verifyPayment deposit_verified 98 1 Rejected (Some ''salah'')
     = (Inl AlreadyDecided, deposit_verified) \<and>
   map payment_status (bookings deposit_verified) = [Dp_paid]"
proof -
  let ?p1 = "\<lparr>p_id = 1, p_booking_id = 1, jumlah = 300000, payment_type = Dp,
          payment_method = Transfer, bukti_transfer = Some ''payment-1.png'',
          status_payment = PayPending, verified_by = None\<rparr>"
  have f1: "payment_with_booking deposit_submitted 1 = (?p1, sample_booking) # []"
    by (simp add: payment_with_booking_def deposit_submitted_value sample_defs)
  have f2: "payment_with_booking deposit_verified 1
              = (?p1\<lparr>status_payment := Verified, verified_by := Some 99\<rparr>,
                 sample_booking\<lparr>payment_status := Dp_paid\<rparr>) # []"
    by (simp add: payment_with_booking_def deposit_verified_value sample_defs)
  have a: "verifyPayment deposit_verified 98 1 Verified None
             = (Inl AlreadyDecided, deposit_verified)"
    using verifyPayment_already_decided[OF f1, where decision = Verified and adminId = 99
        and adminId' = 98 and decision' = Verified]
    by (simp add: deposit_verified_def)
  have b: "verifyPayment deposit_verified 98 1 Rejected (Some ''salah'')
             = (Inl AlreadyDecided, deposit_verified)"
    using verifyPayment_already_decided[OF f2, where decision = Rejected and adminId = 98]
    by simp
  have c: "map payment_status (bookings deposit_verified) = [Dp_paid]"
    by (simp add: deposit_verified_value sample_defs)
  from a b c show ?thesis by simp
qed

end
